theory Spec2Isabelle
  imports Main "HOL-Library.AList"
begin

section \<open>Python values, exceptions and command outcomes\<close>

text \<open>
  The recording module (\<^verbatim>\<open>util/_metadata/recording.py\<close>) handles argument values of an
  \<^verbatim>\<open>argparse.Namespace\<close>, the value a command returns and the exception it raises.
  A \<^verbatim>\<open>FileArg(val, mode, compute_fnames)\<close> wraps the command-line string \<^verbatim>\<open>val\<close> of
  an argument that denotes input or output files.
\<close>

datatype mode = IN | OUT

datatype file_arg = FileArg (val: string) (mode: mode) (compute_fnames: "string \<Rightarrow> string list")

datatype pyval =
    PNone
  | PBool bool
  | PInt int
  | PStr string
  | PList "pyval list"
  | PTuple "pyval list"
  | PDict "(string \<times> pyval) list"
  | PFileArg file_arg

text \<open>
  Exceptions by the classes the \<^verbatim>\<open>except\<close> clauses of the module tell apart:
  \<^verbatim>\<open>KeyboardInterrupt\<close>, \<^verbatim>\<open>SystemExit\<close>, any other class outside \<^verbatim>\<open>Exception\<close>,
  and the subclasses of \<^verbatim>\<open>Exception\<close> (with their text).
\<close>

datatype exn = KeyboardInterrupt | SystemExit | OtherBaseException string | Exception string

text \<open>The outcome object a hook wrapper receives: the list of results of the wrapped
  hook implementations, or the exception raised.\<close>

datatype outcome = Result "pyval list" | Excinfo exn

type_synonym namespace = "(string \<times> pyval) list"

section \<open>String helpers of the Python library\<close>

definition join :: "string \<Rightarrow> string list \<Rightarrow> string" where
  "join sep xs = (case xs of [] \<Rightarrow> [] | y # ys \<Rightarrow> y @ concat (map (\<lambda>s. sep @ s) ys))"

definition startswith :: "string \<Rightarrow> string \<Rightarrow> bool" where
  "startswith s p = (take (length p) s = p)"

definition is_space :: "char \<Rightarrow> bool" where
  "is_space c = (c \<in> set [CHR '' '', CHR 0x09, CHR 0x0A, CHR 0x0B, CHR 0x0C, CHR 0x0D])"

definition strip :: "string \<Rightarrow> string" where
  "strip s = rev (dropWhile is_space (rev (dropWhile is_space s)))"

fun split_ws :: "string \<Rightarrow> string \<Rightarrow> string list" where
  "split_ws acc [] = (if acc = [] then [] else [rev acc])"
| "split_ws acc (c # cs) =
     (if is_space c then (if acc = [] then split_ws [] cs else rev acc # split_ws [] cs)
      else split_ws (c # acc) cs)"

fun split_on :: "char \<Rightarrow> string \<Rightarrow> string \<Rightarrow> string list" where
  "split_on sep acc [] = [rev acc]"
| "split_on sep acc (c # cs) =
     (if c = sep then rev acc # split_on sep [] cs else split_on sep (c # acc) cs)"

definition basename :: "string \<Rightarrow> string" where
  "basename p = rev (takeWhile (\<lambda>c. c \<noteq> CHR ''/'') (rev p))"

definition path_join :: "string \<Rightarrow> string \<Rightarrow> string" where
  "path_join a b =
     (if startswith b ''/'' then b
      else if a = [] \<or> last a = CHR ''/'' then a @ b
      else a @ ''/'' @ b)"

section \<open>The surroundings of one process\<close>

text \<open>
  Everything the module reads from or writes to outside itself is a field of one record:
  the environment variables, the files, the clock-independent facts of the host, the
  helpers of other modules whose answers the module only passes on, the metadata store
  and the log. Functions that change some of it return the updated record.
\<close>

datatype level = INFO | WARNING

record file_info =
  fi_path :: string
  fi_digest :: string
  fi_size :: nat
  fi_mtime :: int
  fi_exists :: bool

datatype jval =
    JNull
  | JBool bool
  | JInt int
  | JStr string
  | JList "jval list"
  | JDict "(string \<times> jval) list"
  | JFileInfo "file_info list"

record run_info =
  beg_time :: int
  end_time :: int
  duration :: int
  exception :: "string option"
  argv :: "string list"

record version_info =
  viral_ngs_version :: string
  viral_ngs_path :: string
  viral_ngs_path_real :: string
  code_hash :: string

record run_env =
  metadata_dir :: string
  platform :: string
  cpus :: nat
  host :: string
  user :: string
  cwd :: string
  conda_env :: string
  got_detailed_env :: bool
  env_vars :: "(string \<times> string) list"

record step =
  step_id :: string
  run_id :: string
  cmd_module :: string
  cmd_name :: pyval
  version_info :: version_info
  run_env :: run_env
  run_info :: run_info
  args :: namespace
  metadata_from_cmd_line :: "(string \<times> pyval) list"
  metadata_from_cmd_return :: pyval
  enclosing_steps :: "string list"

record step_data =
  viral_ngs_metadata :: bool
  format :: string
  step :: step

text \<open>A document of the metadata store: the step data, and its argument map as
  serialized.\<close>

record stored =
  doc_data :: step_data
  doc_args :: "(string \<times> jval) list"

record world =
  environ :: "(string \<times> string) list"
  files :: "string \<Rightarrow> string option"
  file_mtime :: "string \<Rightarrow> int"
  isdir :: "string \<Rightarrow> bool"
  writable :: "string \<Rightarrow> bool"
  strftime_localtime :: "int option \<Rightarrow> string"
  getuser :: string
  getcwd :: string
  getfqdn :: string
  platform_platform :: string
  available_cpu_count :: nat
  sys_argv :: "string list"
  py_str :: "pyval \<Rightarrow> string"
  traceback_text :: "exn \<Rightarrow> string"
  project_path :: string
  realpath :: "string \<Rightarrow> string"
  get_version :: "exn + string"
  shell_cmd :: "string \<Rightarrow> exn + string"
  hasher :: "string \<Rightarrow> string"
  result_fnames :: "pyval \<Rightarrow> file_arg \<Rightarrow> string list"
  tracking_enabled :: bool
  db_metadata_dir :: string
  db_error :: "exn option"
  db :: "stored list"
  logged :: "(level \<times> string) list"

text \<open>
  The fields, by what they stand for:
  \<^item> \<open>environ\<close>: \<^verbatim>\<open>os.environ\<close>, in insertion order, each name once;
  \<^item> \<open>files\<close>: the content of each regular file (\<open>None\<close> where \<^verbatim>\<open>os.path.isfile\<close> is
    false), \<open>file_mtime\<close> its modification time, \<open>isdir\<close> is \<^verbatim>\<open>os.path.isdir\<close>, and
    \<open>writable\<close> tells where \<^verbatim>\<open>util.file.dump_file\<close> succeeds;
  \<^item> \<open>strftime_localtime t\<close>: \<^verbatim>\<open>time.strftime('%Y%m%d%H%M%S', time.localtime(t))\<close>;
  \<^item> \<open>getuser\<close>, \<open>getcwd\<close>, \<open>getfqdn\<close>, \<open>platform_platform\<close>, \<open>available_cpu_count\<close>,
    \<open>sys_argv\<close>: the library calls of these names;
  \<^item> \<open>py_str\<close>: the builtin \<^verbatim>\<open>str\<close>; \<open>traceback_text e\<close>: the lines that
    \<^verbatim>\<open>traceback.format_exc()\<close> prints after its header while \<open>e\<close> is handled;
  \<^item> \<open>project_path\<close>, \<open>get_version\<close>: \<^verbatim>\<open>util.version\<close>; \<open>shell_cmd\<close>: \<^verbatim>\<open>_shell_cmd\<close> of
    \<^verbatim>\<open>md_utils\<close> (its output, or the exception it raises);
  \<^item> \<open>hasher\<close>: the digest of a file content; \<open>result_fnames\<close>: the file names a command
    result adds to those of a \<^verbatim>\<open>FileArg\<close>;
  \<^item> \<open>tracking_enabled\<close>, \<open>db_metadata_dir\<close>: \<^verbatim>\<open>metadata_db.is_metadata_tracking_enabled()\<close>
    and \<^verbatim>\<open>metadata_db.metadata_dir()\<close>; \<open>db\<close>: the documents stored so far; \<open>db_error\<close>:
    the exception the store raises on a write, if it does;
  \<^item> \<open>logged\<close>: the lines written to \<^verbatim>\<open>_log\<close>.
\<close>

definition VIRAL_NGS_METADATA_FORMAT :: string where
  "VIRAL_NGS_METADATA_FORMAT = ''1.0.0''"

definition log_info :: "string \<Rightarrow> world \<Rightarrow> world" where
  "log_info msg w = w\<lparr>logged := logged w @ [(INFO, msg)]\<rparr>"

text \<open>
  Modelled from the spec: \<^verbatim>\<open>errors_as_warnings\<close> of \<^verbatim>\<open>md_utils\<close> is not part of the
  recording module. The spec says that any exception raised in the block is caught and
  logged as a warning. The block is given by how it ended (\<open>raised\<close>: the exception that
  left it, if one did); what the block did before raising stays done.
\<close>

definition errors_as_warnings :: "string \<Rightarrow> exn option \<Rightarrow> world \<Rightarrow> world" where
  "errors_as_warnings msg raised w =
     (case raised of
        None \<Rightarrow> w
      | Some e \<Rightarrow> w\<lparr>logged := logged w @ [(WARNING, msg)]\<rparr>)"

text \<open>Truth values of Python objects, and \<^verbatim>\<open>x in os.environ\<close>.\<close>

fun truthy :: "pyval \<Rightarrow> bool" where
  "truthy PNone = False"
| "truthy (PBool b) = b"
| "truthy (PInt i) = (i \<noteq> 0)"
| "truthy (PStr s) = (s \<noteq> [])"
| "truthy (PList xs) = (xs \<noteq> [])"
| "truthy (PTuple xs) = (xs \<noteq> [])"
| "truthy (PDict kvs) = (kvs \<noteq> [])"
| "truthy (PFileArg fa) = True"

definition in_environ :: "string \<Rightarrow> world \<Rightarrow> bool" where
  "in_environ name w = (map_of (environ w) name \<noteq> None)"

section \<open>Run identifiers\<close>

text \<open>
  Modelled from the spec: \<^verbatim>\<open>util.file.string_to_file_name\<close> is not part of the recording
  module. The spec says that the result is transliterated to a filesystem-safe character
  set; here letters, digits, dot, underscore and hyphen are safe and every other
  character becomes an underscore.
\<close>

definition fs_safe :: "char \<Rightarrow> bool" where
  "fs_safe c =
     (c \<in> set ''abcdefghijklmnopqrstuvwxyzABCDEFGHIJKLMNOPQRSTUVWXYZ0123456789._-'')"

definition string_to_file_name :: "string \<Rightarrow> string" where
  "string_to_file_name s = map (\<lambda>c. if fs_safe c then c else CHR ''_'') s"

text \<open>\<open>uuid\<close> is the value of \<^verbatim>\<open>uuid.uuid4()\<close> in this call, as a string.\<close>

definition create_run_id :: "world \<Rightarrow> string \<Rightarrow> int option \<Rightarrow> string" where
  "create_run_id w uuid t =
     take 210 (string_to_file_name (join ''__''
       [drop 2 (strftime_localtime w t), getuser w, basename (getcwd w), uuid]))"

definition set_run_id :: "world \<Rightarrow> string \<Rightarrow> world" where
  "set_run_id w uuid =
     w\<lparr>environ := AList.update ''VIRAL_NGS_METADATA_RUN_ID'' (create_run_id w uuid None) (environ w)\<rparr>"

section \<open>Argument normalization\<close>

text \<open>The local function \<^verbatim>\<open>_replace_file_args\<close> of \<^verbatim>\<open>replace_file_args\<close>.\<close>

fun inner_replace_file_args :: "pyval \<Rightarrow> pyval" where
  "inner_replace_file_args (PFileArg fa) = PStr (val fa)"
| "inner_replace_file_args (PList xs) = PList (map inner_replace_file_args xs)"
| "inner_replace_file_args (PTuple xs) = PList (map inner_replace_file_args xs)"
| "inner_replace_file_args v = v"

definition replace_file_args :: "namespace \<Rightarrow> namespace" where
  "replace_file_args ns = map (\<lambda>(arg, v). (arg, inner_replace_file_args v)) ns"

text \<open>A \<^verbatim>\<open>FileArg\<close> instance occurs somewhere in a value (inside lists, tuples or the values
  of a mapping).\<close>

fun has_file_arg :: "pyval \<Rightarrow> bool" where
  "has_file_arg (PFileArg fa) = True"
| "has_file_arg (PList xs) = list_ex has_file_arg xs"
| "has_file_arg (PTuple xs) = list_ex has_file_arg xs"
| "has_file_arg (PDict kvs) = list_ex (\<lambda>kv. has_file_arg (snd kv)) kvs"
| "has_file_arg v = False"

text \<open>A \<^verbatim>\<open>FileArg\<close> instance occurs in a value at a place reached through lists and tuples
  only.\<close>

fun has_seq_file_arg :: "pyval \<Rightarrow> bool" where
  "has_seq_file_arg (PFileArg fa) = True"
| "has_seq_file_arg (PList xs) = list_ex has_seq_file_arg xs"
| "has_seq_file_arg (PTuple xs) = list_ex has_seq_file_arg xs"
| "has_seq_file_arg v = False"

text \<open>No mapping inside the value holds a \<^verbatim>\<open>FileArg\<close>.\<close>

fun no_file_arg_in_dict :: "pyval \<Rightarrow> bool" where
  "no_file_arg_in_dict (PList xs) = list_all no_file_arg_in_dict xs"
| "no_file_arg_in_dict (PTuple xs) = list_all no_file_arg_in_dict xs"
| "no_file_arg_in_dict (PDict kvs) = (\<not> list_ex (\<lambda>kv. has_file_arg (snd kv)) kvs)"
| "no_file_arg_in_dict v = True"

text \<open>A value that normalization has nothing to do with: neither a \<^verbatim>\<open>FileArg\<close> nor a
  tuple, nor a list that holds one.\<close>

fun seq_plain :: "pyval \<Rightarrow> bool" where
  "seq_plain (PFileArg fa) = False"
| "seq_plain (PTuple xs) = False"
| "seq_plain (PList xs) = list_all seq_plain xs"
| "seq_plain v = True"

section \<open>The code version\<close>

text \<open>
  \<^verbatim>\<open>save_dirty_repo\<close>: the result, or the exception that leaves the function. With a
  stash hash, a tag and a remote to push to, the function reads the name \<^verbatim>\<open>tagb\<close>, which
  nothing binds, and Python raises \<^verbatim>\<open>NameError\<close>.
\<close>

definition save_dirty_repo :: "world \<Rightarrow> string \<Rightarrow> string \<Rightarrow> string option \<Rightarrow> exn + string" where
  "save_dirty_repo w code_hash0 tag push_to =
     (case shell_cmd w ''git stash create'' of
        Inl e \<Rightarrow> Inl e
      | Inr stash_hash \<Rightarrow>
          if stash_hash \<noteq> [] then
            (if tag \<noteq> [] then
               (case shell_cmd w (''git tag '' @ tag @ '' '' @ stash_hash) of
                  Inl e \<Rightarrow> Inl e
                | Inr out \<Rightarrow>
                    if push_to \<noteq> None \<and> push_to \<noteq> Some []
                    then Inl (Exception ''NameError: name tagb is not defined'')
                    else Inr stash_hash)
             else Inr stash_hash)
          else Inr code_hash0)"

text \<open>
  The block of \<^verbatim>\<open>tag_code_version\<close> under \<^verbatim>\<open>errors_as_warnings\<close>: the exception that left
  it (if one did) and the value of the local variable \<^verbatim>\<open>code_hash\<close> at that moment.
\<close>

definition read_head_ref :: "world \<Rightarrow> exn option \<times> string" where
  "read_head_ref w =
     (let git_dir = path_join (project_path w) ''.git'';
          git_head_fname = path_join git_dir ''HEAD''
      in case files w git_head_fname of
           None \<Rightarrow> (None, [])
         | Some c \<Rightarrow>
             (let head_branch = strip c
              in if startswith head_branch ''ref:'' then
                   (case split_ws [] head_branch of
                      a # r # rest \<Rightarrow>
                        (case files w (path_join git_dir r) of
                           Some h \<Rightarrow> (None, strip h)
                         | None \<Rightarrow> (Some (Exception ''IOError: No such file or directory''), []))
                    | other \<Rightarrow> (Some (Exception ''IndexError: list index out of range''), []))
                 else (None, [])))"

definition tag_code_version_block :: "world \<Rightarrow> string \<Rightarrow> string option \<Rightarrow> exn option \<times> string" where
  "tag_code_version_block w tag push_to =
     (case read_head_ref w of
        (Some e, h) \<Rightarrow> (Some e, h)
      | (None, h) \<Rightarrow>
          if in_environ ''VIRAL_NGS_METADATA_DETAILED_ENV'' w then
            (case save_dirty_repo w h tag push_to of
               Inl e \<Rightarrow> (Some e, h)
             | Inr h' \<Rightarrow> (None, h'))
          else (None, h))"

definition tag_code_version :: "world \<Rightarrow> string \<Rightarrow> string option \<Rightarrow> string \<times> world" where
  "tag_code_version w tag push_to =
     (case tag_code_version_block w tag push_to of
        (raised, h) \<Rightarrow> (h, errors_as_warnings ''getting repo version'' raised w))"

definition get_conda_env :: "world \<Rightarrow> exn + string" where
  "get_conda_env w =
     (if \<not> in_environ ''VIRAL_NGS_METADATA_DETAILED_ENV'' w then Inr []
      else shell_cmd w ''conda env export'')"

definition gather_version_info :: "world \<Rightarrow> string \<Rightarrow> (exn + version_info) \<times> world" where
  "gather_version_info w sid =
     (let code_repo = path_join (db_metadata_dir w) ''code_repo''
      in case tag_code_version w (''cmd_'' @ sid) (if isdir w code_repo then Some code_repo else None) of
           (h, w') \<Rightarrow>
             (case get_version w' of
                Inl e \<Rightarrow> (Inl e, w')
              | Inr v \<Rightarrow>
                  (Inr \<lparr>viral_ngs_version = v,
                        viral_ngs_path = project_path w',
                        viral_ngs_path_real = realpath w' (project_path w'),
                        code_hash = h\<rparr>, w')))"

definition env_vars_to_save :: "string list" where
  "env_vars_to_save =
     [''DX_JOB_ID'', ''DX_PROJECT_CONTEXT_ID'', ''TRAVIS_BUILD_ID'', ''TRAVIS_JOB_ID'', ''TRAVIS_COMMIT'']"

definition gather_run_env :: "world \<Rightarrow> exn + run_env" where
  "gather_run_env w =
     (case get_conda_env w of
        Inl e \<Rightarrow> Inl e
      | Inr ce \<Rightarrow>
          Inr \<lparr>metadata_dir = [],
               platform = platform_platform w,
               cpus = available_cpu_count w,
               host = getfqdn w,
               user = getuser w,
               cwd = getcwd w,
               conda_env = ce,
               got_detailed_env = in_environ ''VIRAL_NGS_METADATA_DETAILED_ENV'' w,
               env_vars = filter (\<lambda>kv. fst kv \<in> set env_vars_to_save) (environ w)\<rparr>)"

definition gather_run_info :: "world \<Rightarrow> int \<Rightarrow> int \<Rightarrow> string option \<Rightarrow> run_info" where
  "gather_run_info w t0 t1 cmd_exception_str =
     \<lparr>beg_time = t0, end_time = t1, duration = t1 - t0,
      exception = cmd_exception_str, argv = sys_argv w\<rparr>"

section \<open>User metadata\<close>

text \<open>
  The builtin \<^verbatim>\<open>dict\<close> on a mapping or on a sequence of pairs: a later pair with the same
  key replaces the value of the earlier one. Mapping keys are strings here (the
  \<^verbatim>\<open>--metadata\<close> option gives pairs of strings), and anything that is not a pair raises.
\<close>

fun dict_items :: "pyval list \<Rightarrow> exn + (string \<times> pyval) list" where
  "dict_items [] = Inr []"
| "dict_items (p # ps) =
     (case (case p of
              PList [PStr k, v] \<Rightarrow> Some (k, v)
            | PTuple [PStr k, v] \<Rightarrow> Some (k, v)
            | PStr [a, b] \<Rightarrow> Some ([a], PStr [b])
            | other \<Rightarrow> None) of
        None \<Rightarrow> Inl (Exception ''ValueError: dictionary update sequence element is not a pair'')
      | Some kv \<Rightarrow>
          (case dict_items ps of
             Inl e \<Rightarrow> Inl e
           | Inr kvs \<Rightarrow> Inr (kv # kvs)))"

definition dict_update :: "(string \<times> 'v) list \<Rightarrow> (string \<times> 'v) list \<Rightarrow> (string \<times> 'v) list" where
  "dict_update d kvs = fold (\<lambda>kv acc. AList.update (fst kv) (snd kv) acc) kvs d"

definition py_dict :: "pyval \<Rightarrow> exn + (string \<times> pyval) list" where
  "py_dict v =
     (case v of
        PDict kvs \<Rightarrow> Inr kvs
      | PList ps \<Rightarrow> map_sum id (dict_update []) (dict_items ps)
      | PTuple ps \<Rightarrow> map_sum id (dict_update []) (dict_items ps)
      | other \<Rightarrow> Inl (Exception ''TypeError: object is not iterable''))"

definition METADATA_VALUE_PREFIX :: string where
  "METADATA_VALUE_PREFIX = ''VIRAL_NGS_METADATA_VALUE_''"

text \<open>The dict comprehension over \<^verbatim>\<open>os.environ.items()\<close>.\<close>

definition metadata_from_environ :: "world \<Rightarrow> (string \<times> pyval) list" where
  "metadata_from_environ w =
     dict_update []
       (map (\<lambda>kv. (drop (length METADATA_VALUE_PREFIX) (fst kv), PStr (snd kv)))
         (filter (\<lambda>kv. startswith (fst kv) METADATA_VALUE_PREFIX) (environ w)))"

text \<open>
  \<^verbatim>\<open>gather_user_metadata\<close> returns the two mappings; the third component is
  \<^verbatim>\<open>args_dict\<close> after the \<^verbatim>\<open>pop\<close> of \<^verbatim>\<open>'metadata'\<close>, which the caller goes on using.
\<close>

definition gather_user_metadata ::
  "world \<Rightarrow> namespace \<Rightarrow> pyval \<Rightarrow> exn + ((string \<times> pyval) list \<times> pyval \<times> namespace)" where
  "gather_user_metadata w args_dict cmd_result =
     (let from_env = metadata_from_environ w;
          popped = (case map_of args_dict ''metadata'' of None \<Rightarrow> PDict [] | Some v \<Rightarrow> v);
          args_dict' = AList.delete ''metadata'' args_dict
      in case py_dict (if truthy popped then popped else PDict []) of
           Inl e \<Rightarrow> Inl e
         | Inr given \<Rightarrow>
             Inr (dict_update from_env given,
                  (case cmd_result of
                     PDict kvs \<Rightarrow>
                       (case map_of kvs ''__metadata__'' of None \<Rightarrow> PDict [] | Some m \<Rightarrow> m)
                   | other \<Rightarrow> PDict []),
                  args_dict'))"

section \<open>The outcome of the command\<close>

definition format_exc :: "world \<Rightarrow> exn \<Rightarrow> string" where
  "format_exc w e = ''Traceback (most recent call last):'' @ [CHR 0x0A] @ traceback_text w e"

text \<open>
  \<^verbatim>\<open>unpack_outcome\<close> up to its \<^verbatim>\<open>yield\<close>: either the exception that leaves the context
  manager at once (the block of the \<^verbatim>\<open>with\<close> statement is then not run), or the triple
  \<^verbatim>\<open>(cmd_result, cmd_exception, cmd_exception_str)\<close> it yields.
\<close>

definition unpack_outcome :: "world \<Rightarrow> outcome \<Rightarrow> exn + (pyval \<times> exn option \<times> string option)" where
  "unpack_outcome w oc =
     (case oc of
        Result rs \<Rightarrow> Inr ((case rs of [] \<Rightarrow> PList [] | r # rest \<Rightarrow> r), None, None)
      | Excinfo e \<Rightarrow>
          (case e of
             Exception m \<Rightarrow> Inr (PNone, Some e, Some (format_exc w e))
           | other \<Rightarrow> Inl e))"

text \<open>After the block: \<^verbatim>\<open>if cmd_exception: raise cmd_exception\<close>.\<close>

definition unpack_outcome_exit :: "exn option \<Rightarrow> exn option" where
  "unpack_outcome_exit cmd_exception = cmd_exception"

section \<open>Writing the step record\<close>

text \<open>
  Modelled from the spec: \<^verbatim>\<open>FileArg.gather_file_info\<close> is in \<^verbatim>\<open>file_arg.py\<close>, not in the
  recording module. By the spec, each resolved path is hashed and stat'ed if the direction
  is IN, or if it is OUT and \<open>out_files_exist\<close> holds, and is marked absent otherwise; a
  path that cannot be found has \<open>exists = false\<close>; the paths the command result supplies
  are merged in.
\<close>

definition hash_and_stat :: "world \<Rightarrow> string \<Rightarrow> file_info" where
  "hash_and_stat w p =
     (case files w p of
        None \<Rightarrow> \<lparr>fi_path = p, fi_digest = [], fi_size = 0, fi_mtime = 0, fi_exists = False\<rparr>
      | Some c \<Rightarrow>
          \<lparr>fi_path = p, fi_digest = hasher w c, fi_size = length c,
           fi_mtime = file_mtime w p, fi_exists = True\<rparr>)"

definition absent_file :: "string \<Rightarrow> file_info" where
  "absent_file p = \<lparr>fi_path = p, fi_digest = [], fi_size = 0, fi_mtime = 0, fi_exists = False\<rparr>"

definition gather_file_info :: "world \<Rightarrow> file_arg \<Rightarrow> bool \<Rightarrow> pyval \<Rightarrow> file_info list" where
  "gather_file_info w fa out_files_exist cmd_result =
     map (\<lambda>p. if mode fa = IN \<or> out_files_exist then hash_and_stat w p else absent_file p)
       (compute_fnames fa (val fa) @ result_fnames w cmd_result fa)"

text \<open>\<^verbatim>\<open>not x\<close> for the exception text, which is \<^verbatim>\<open>None\<close> or a string.\<close>

definition py_not :: "string option \<Rightarrow> bool" where
  "py_not x = (case x of None \<Rightarrow> True | Some s \<Rightarrow> s = [])"

text \<open>The local function \<^verbatim>\<open>write_obj\<close> of \<^verbatim>\<open>record_step_to_db\<close>.\<close>

definition write_obj :: "world \<Rightarrow> step_data \<Rightarrow> pyval \<Rightarrow> pyval \<Rightarrow> jval" where
  "write_obj w sd cmd_result x =
     (case x of
        PFileArg fa \<Rightarrow>
          JFileInfo (gather_file_info w fa (py_not (exception (run_info (step sd)))) cmd_result)
      | other \<Rightarrow> JStr (py_str w x))"

text \<open>
  Modelled from the spec: \<^verbatim>\<open>metadata_db.store_step_record\<close> is not part of the recording
  module. By the spec it appends the record to the store, and its serializer argument
  converts any embedded \<^verbatim>\<open>FileArg\<close> into its file info at serialization time; values the
  serialization knows (none, booleans, numbers, strings, sequences, mappings) are written
  as they are. A store that fails raises and stores nothing.
\<close>

fun serialize :: "(pyval \<Rightarrow> jval) \<Rightarrow> pyval \<Rightarrow> jval" where
  "serialize f PNone = JNull"
| "serialize f (PBool b) = JBool b"
| "serialize f (PInt i) = JInt i"
| "serialize f (PStr s) = JStr s"
| "serialize f (PList xs) = JList (map (serialize f) xs)"
| "serialize f (PTuple xs) = JList (map (serialize f) xs)"
| "serialize f (PDict kvs) = JDict (map (\<lambda>kv. (fst kv, serialize f (snd kv))) kvs)"
| "serialize f (PFileArg fa) = f (PFileArg fa)"

definition store_step_record :: "world \<Rightarrow> step_data \<Rightarrow> (pyval \<Rightarrow> jval) \<Rightarrow> exn option \<times> world" where
  "store_step_record w sd f =
     (case db_error w of
        Some e \<Rightarrow> (Some e, w)
      | None \<Rightarrow>
          (None, w\<lparr>db := db w @
             [\<lparr>doc_data = sd,
               doc_args = map (\<lambda>kv. (fst kv, serialize f (snd kv))) (args (step sd))\<rparr>]\<rparr>))"

definition record_step_to_db :: "world \<Rightarrow> step_data \<Rightarrow> pyval \<Rightarrow> exn option \<times> world" where
  "record_step_to_db w sd cmd_result = store_step_record w sd (write_obj w sd cmd_result)"

section \<open>The hook wrapper around a command\<close>

definition RUN_ID_VAR :: string where
  "RUN_ID_VAR = ''VIRAL_NGS_METADATA_RUN_ID''"

definition STEPS_RUNNING_VAR :: string where
  "STEPS_RUNNING_VAR = ''VIRAL_NGS_METADATA_STEPS_RUNNING''"

definition SAVE_STEP_ID_TO_VAR :: string where
  "SAVE_STEP_ID_TO_VAR = ''VIRAL_NGS_METADATA_SAVE_STEP_ID_TO''"

text \<open>
  Modelled from the spec: \<^verbatim>\<open>util.misc.tmp_set_env\<close> is not part of the recording module.
  By the spec, entering reads the sequence of the steps in flight from the environment
  channel (a delimiter-joined string), returns it, and lets the scope see it with the new
  step appended; leaving restores the value found at entry, on every path.
\<close>

definition tmp_set_env_enter :: "world \<Rightarrow> string \<Rightarrow> string \<Rightarrow> char \<Rightarrow> string list \<times> world" where
  "tmp_set_env_enter w name v sep =
     (let enclosing =
            (case map_of (environ w) name of
               None \<Rightarrow> []
             | Some s \<Rightarrow> if s = [] then [] else split_on sep [] s)
      in (enclosing, w\<lparr>environ := AList.update name (join [sep] (enclosing @ [v])) (environ w)\<rparr>))"

definition tmp_set_env_exit :: "string option \<Rightarrow> string \<Rightarrow> world \<Rightarrow> world" where
  "tmp_set_env_exit old name w =
     w\<lparr>environ :=
         (case old of
            None \<Rightarrow> AList.delete name (environ w)
          | Some s \<Rightarrow> AList.update name s (environ w))\<rparr>"

text \<open>
  What one call reads from the clock and from the random source: \<^verbatim>\<open>time.time()\<close> at the
  start, at the decision and at the end, and the \<^verbatim>\<open>uuid.uuid4()\<close> of the two calls of
  \<^verbatim>\<open>create_run_id\<close>.
\<close>

record readings =
  t_beg :: int
  t_end :: int
  t_done :: int
  uuid_run :: string
  uuid_step :: string

text \<open>The local variables of \<^verbatim>\<open>cmd_call_cmd\<close> that are alive at its \<^verbatim>\<open>yield\<close>.\<close>

record locals =
  l_args_dict :: namespace
  l_cmd_module :: string
  l_cmd_name :: pyval
  l_beg_time :: int
  l_run_id :: string
  l_step_id :: string
  l_enclosing_steps :: "string list"
  l_steps_running_at_entry :: "string option"

definition save_step_id :: "world \<Rightarrow> string \<Rightarrow> exn option \<times> world" where
  "save_step_id w sid =
     (case map_of (environ w) SAVE_STEP_ID_TO_VAR of
        None \<Rightarrow> (None, w)
      | Some p \<Rightarrow>
          if writable w p then (None, w\<lparr>files := (files w)(p \<mapsto> sid)\<rparr>)
          else (Some (Exception ''IOError: cannot write''), w))"

text \<open>
  \<^verbatim>\<open>cmd_call_cmd\<close> up to its \<^verbatim>\<open>yield\<close>. \<open>module\<close> and \<open>func_name\<close> are what \<^verbatim>\<open>inspect\<close> finds
  for \<^verbatim>\<open>cmd_main\<close>. The result holds the local variables, the argument namespace as the
  command will see it, and the surroundings.
\<close>

definition cmd_call_cmd_before ::
  "string \<Rightarrow> string \<Rightarrow> namespace \<Rightarrow> readings \<Rightarrow> world \<Rightarrow> locals \<times> namespace \<times> world" where
  "cmd_call_cmd_before module func_name ns rd w =
     (let args_dict = ns;
          name = (case map_of args_dict ''command'' of None \<Rightarrow> PStr func_name | Some v \<Rightarrow> v);
          fresh = create_run_id w (uuid_run rd) (Some (t_beg rd));
          rid = (case map_of (environ w) RUN_ID_VAR of None \<Rightarrow> fresh | Some r \<Rightarrow> r);
          sid = join ''__'' [create_run_id w (uuid_step rd) (Some (t_beg rd)), module, py_str w name];
          w1 = (case save_step_id w sid of (raised, w') \<Rightarrow> errors_as_warnings [] raised w');
          ns' = replace_file_args ns
      in case tmp_set_env_enter w1 STEPS_RUNNING_VAR sid (CHR '':'') of
           (enclosing, w2) \<Rightarrow>
             (\<lparr>l_args_dict = args_dict, l_cmd_module = module, l_cmd_name = name,
               l_beg_time = t_beg rd, l_run_id = rid, l_step_id = sid,
               l_enclosing_steps = enclosing,
               l_steps_running_at_entry = map_of (environ w1) STEPS_RUNNING_VAR\<rparr>,
              ns', w2))"

text \<open>
  The block under \<^verbatim>\<open>unpack_outcome\<close> and \<^verbatim>\<open>errors_as_warnings\<close>: the exception that left
  it (if one did), and the surroundings as the block left them.
\<close>

definition recording_block ::
  "locals \<Rightarrow> readings \<Rightarrow> pyval \<Rightarrow> string option \<Rightarrow> world \<Rightarrow> exn option \<times> world" where
  "recording_block l rd cmd_result cmd_exception_str w =
     (if tracking_enabled w \<and> l_enclosing_steps l = [] then
        (let w1 = log_info ''command finished'' w
         in case gather_user_metadata w1 (l_args_dict l) cmd_result of
              Inl e \<Rightarrow> (Some e, w1)
            | Inr (from_cmd_line, from_cmd_return, args_dict1) \<Rightarrow>
                (let args_dict2 = AList.delete ''func_main'' args_dict1
                 in case gather_version_info w1 (l_step_id l) of
                      (Inl e, w2) \<Rightarrow> (Some e, w2)
                    | (Inr vi, w2) \<Rightarrow>
                        (case gather_run_env w2 of
                           Inl e \<Rightarrow> (Some e, w2)
                         | Inr re \<Rightarrow>
                             (case record_step_to_db w2
                                     \<lparr>viral_ngs_metadata = True,
                                      format = VIRAL_NGS_METADATA_FORMAT,
                                      step =
                                        \<lparr>step_id = l_step_id l, run_id = l_run_id l,
                                         cmd_module = l_cmd_module l, cmd_name = l_cmd_name l,
                                         version_info = vi,
                                         run_env = re,
                                         run_info = gather_run_info w2 (l_beg_time l) (t_end rd)
                                                      cmd_exception_str,
                                         args = args_dict2,
                                         metadata_from_cmd_line = from_cmd_line,
                                         metadata_from_cmd_return = from_cmd_return,
                                         enclosing_steps = l_enclosing_steps l\<rparr>\<rparr>
                                     cmd_result of
                                (Some e, w3) \<Rightarrow> (Some e, w3)
                              | (None, w3) \<Rightarrow> (None, log_info ''metadata recording done'' w3)))))
      else (None, w))"

text \<open>
  \<^verbatim>\<open>cmd_call_cmd\<close> from its \<^verbatim>\<open>yield\<close> on, given the outcome that the \<^verbatim>\<open>yield\<close> receives:
  the exception that leaves the generator (if one does), and the surroundings.
\<close>

definition cmd_call_cmd_after ::
  "locals \<Rightarrow> readings \<Rightarrow> outcome \<Rightarrow> world \<Rightarrow> exn option \<times> world" where
  "cmd_call_cmd_after l rd oc w =
     (case (case unpack_outcome w oc of
              Inl e \<Rightarrow> (Some e, w)
            | Inr (cmd_result, cmd_exception, cmd_exception_str) \<Rightarrow>
                (case recording_block l rd cmd_result cmd_exception_str w of
                   (raised, w') \<Rightarrow>
                     (unpack_outcome_exit cmd_exception, errors_as_warnings [] raised w'))) of
        (r, w'') \<Rightarrow> (r, tmp_set_env_exit (l_steps_running_at_entry l) STEPS_RUNNING_VAR w''))"

text \<open>
  One call of the hook with this wrapper around it. The plugin manager runs a wrapper up
  to its \<^verbatim>\<open>yield\<close>, then the wrapped implementations (\<open>cmd_main\<close>, on the namespace as the
  wrapper left it), then sends the outcome into the wrapper; an exception that leaves the
  wrapper is raised to the caller, and otherwise the caller gets the outcome itself.
\<close>

definition cmd_call_cmd ::
  "(namespace \<Rightarrow> world \<Rightarrow> outcome \<times> world) \<Rightarrow> string \<Rightarrow> string \<Rightarrow> namespace \<Rightarrow> readings \<Rightarrow>
     world \<Rightarrow> (exn + pyval list) \<times> world" where
  "cmd_call_cmd cmd_main module func_name ns rd w =
     (case cmd_call_cmd_before module func_name ns rd w of
        (l, ns', w1) \<Rightarrow>
          (case cmd_main ns' w1 of
             (oc, w2) \<Rightarrow>
               (case cmd_call_cmd_after l rd oc w2 of
                  (raised, w3) \<Rightarrow>
                    ((case raised of
                        Some e \<Rightarrow> Inl e
                      | None \<Rightarrow> (case oc of Result rs \<Rightarrow> Inr rs | Excinfo e \<Rightarrow> Inl e)),
                     w3))))"

section \<open>Conditions of the statements, and concrete inputs\<close>

text \<open>The outcome is one that \<^verbatim>\<open>unpack_outcome\<close> captures and hands to the block: a result,
  or an exception of class \<^verbatim>\<open>Exception\<close>.\<close>

definition outcome_captured :: "outcome \<Rightarrow> bool" where
  "outcome_captured oc =
     (case oc of
        Result rs \<Rightarrow> True
      | Excinfo e \<Rightarrow> (case e of Exception m \<Rightarrow> True | other \<Rightarrow> False))"

text \<open>Nothing raises while the record is gathered and stored: the \<^verbatim>\<open>--metadata\<close> value
  converts to a mapping, the version and the conda environment are obtained, and the
  store takes the write.\<close>

definition recording_succeeds :: "locals \<Rightarrow> world \<Rightarrow> bool" where
  "recording_succeeds l w =
     (\<not> isl (gather_user_metadata w (l_args_dict l) PNone) \<and>
      \<not> isl (get_version w) \<and>
      \<not> isl (get_conda_env w) \<and>
      db_error w = None)"

text \<open>A host with one input file, tracking enabled, an empty store, and two metadata
  values in the environment.\<close>

definition demo_world :: world where
  "demo_world =
     \<lparr>environ = [(''VIRAL_NGS_METADATA_VALUE_project'', ''from_env''),
                 (''VIRAL_NGS_METADATA_VALUE_lab'', ''sabeti'')],
      files = (\<lambda>p. if p = ''a.bam'' then Some ''ACGT'' else None),
      file_mtime = (\<lambda>p. 0),
      isdir = (\<lambda>p. False),
      writable = (\<lambda>p. True),
      strftime_localtime = (\<lambda>t. ''20181105123456''),
      getuser = ''alice'',
      getcwd = ''/home/alice/proj'',
      getfqdn = ''host'',
      platform_platform = ''Linux'',
      available_cpu_count = 4,
      sys_argv = [],
      py_str = (\<lambda>v. case v of PStr s \<Rightarrow> s | other \<Rightarrow> ''object''),
      traceback_text = (\<lambda>e. ''boom''),
      project_path = ''/opt/viral-ngs'',
      realpath = (\<lambda>p. p),
      get_version = Inr ''v1.21.0'',
      shell_cmd = (\<lambda>c. Inr []),
      hasher = (\<lambda>c. ''sha1:'' @ c),
      result_fnames = (\<lambda>r fa. []),
      tracking_enabled = True,
      db_metadata_dir = ''/md'',
      db_error = None,
      db = [],
      logged = []\<rparr>"

text \<open>The same host with a store that raises on every write.\<close>

definition failing_store_world :: world where
  "failing_store_world = demo_world\<lparr>db_error := Some (Exception ''IOError: disk full'')\<rparr>"

definition demo_args :: namespace where
  "demo_args =
     [(''in_bam'', PFileArg (FileArg ''a.bam'' IN (\<lambda>x. [x]))),
      (''out_bam'', PFileArg (FileArg ''b.bam'' OUT (\<lambda>x. [x]))),
      (''metadata'', PList [PList [PStr ''project'', PStr ''from_cli'']])]"

definition demo_locals :: locals where
  "demo_locals =
     \<lparr>l_args_dict = demo_args,
      l_cmd_module = ''read_utils'', l_cmd_name = PStr ''align'',
      l_beg_time = 10, l_run_id = ''run'', l_step_id = ''step'',
      l_enclosing_steps = [], l_steps_running_at_entry = None\<rparr>"

text \<open>The local variables of a step that runs inside another step.\<close>

definition nested_locals :: locals where
  "nested_locals = demo_locals\<lparr>l_enclosing_steps := [''outer_step''],
                                 l_steps_running_at_entry := Some ''outer_step''\<rparr>"

definition demo_readings :: readings where
  "demo_readings = \<lparr>t_beg = 10, t_end = 20, t_done = 21, uuid_run = ''u1'', uuid_step = ''u2''\<rparr>"

text \<open>An argument namespace with file arguments inside a list and a tuple, beside plain
  values.\<close>

definition nested_args :: namespace where
  "nested_args =
     [(''in_bams'', PList [PFileArg (FileArg ''a.bam'' IN (\<lambda>x. [x])),
                          PTuple [PFileArg (FileArg ''b.bam'' IN (\<lambda>x. [x])), PStr ''x'']]),
      (''threads'', PInt 4),
      (''names'', PList [PStr ''s1'', PStr ''s2'']),
      (''opts'', PDict [(''k'', PStr ''v'')])]"

text \<open>A command that returns, and one that raises.\<close>

definition returning_cmd :: "namespace \<Rightarrow> world \<Rightarrow> outcome \<times> world" where
  "returning_cmd ns w = (Result [PStr ''done''], w)"




text \<open>
  A host with a git checkout on branch \<^verbatim>\<open>master\<close> whose working tree is dirty
  (\<^verbatim>\<open>git stash create\<close> prints a hash), the detailed-environment switch set, and a
  code repository to push to in the metadata directory.
\<close>

definition dirty_repo_world :: world where
  "dirty_repo_world =
     demo_world
       \<lparr>environ := [(''VIRAL_NGS_METADATA_DETAILED_ENV'', ''1'')],
        files := (\<lambda>p. if p = ''/opt/viral-ngs/.git/HEAD''
                        then Some (''ref: refs/heads/master'' @ [CHR 0x0A])
                      else if p = ''/opt/viral-ngs/.git/refs/heads/master''
                        then Some (''0123abc'' @ [CHR 0x0A])
                      else None),
        isdir := (\<lambda>p. p = ''/md/code_repo''),
        shell_cmd := (\<lambda>c. if c = ''git stash create'' then Inr ''9f8e7d'' else Inr [])\<rparr>"

text \<open>A host where the output file is on disk too, and a step record for it.\<close>

definition both_files_world :: world where
  "both_files_world =
     demo_world\<lparr>files := (\<lambda>p. if p = ''a.bam'' then Some ''ACGT''
                              else if p = ''b.bam'' then Some ''TTTT'' else None)\<rparr>"

definition demo_step_data :: "string option \<Rightarrow> step_data" where
  "demo_step_data exc =
     \<lparr>viral_ngs_metadata = True,
      format = VIRAL_NGS_METADATA_FORMAT,
      step =
        \<lparr>step_id = ''step'', run_id = ''run'',
         cmd_module = ''read_utils'', cmd_name = PStr ''align'',
         version_info =
           \<lparr>viral_ngs_version = ''v1.21.0'', viral_ngs_path = ''/opt/viral-ngs'',
            viral_ngs_path_real = ''/opt/viral-ngs'', code_hash = []\<rparr>,
         run_env =
           \<lparr>metadata_dir = [], platform = ''Linux'', cpus = 4, host = ''host'',
            user = ''alice'', cwd = ''/home/alice/proj'', conda_env = [],
            got_detailed_env = False, env_vars = []\<rparr>,
         run_info = gather_run_info demo_world 10 20 exc,
         args = demo_args,
         metadata_from_cmd_line = [],
         metadata_from_cmd_return = PDict [],
         enclosing_steps = []\<rparr>\<rparr>"

section \<open>Run identifiers: length and characters\<close>

lemma string_to_file_name_safe: "list_all fs_safe (string_to_file_name s)"
  by (induction s) (simp_all add: string_to_file_name_def fs_safe_def)

lemma list_all_take: "list_all P xs \<Longrightarrow> list_all P (take n xs)"
  by (auto simp: list_all_iff dest: in_set_takeD)

text \<open>
  Claim C4. For every timestamp (and every user name, working directory and random
  component), the string that \<open>create_run_id\<close> returns has at most 210 characters, and
  each of them is in the filesystem-safe set: the result is the transliteration,
  truncated.
\<close>

theorem create_run_id_bounded_safe:
  "length (create_run_id w uuid t) \<le> 210 \<and> list_all fs_safe (create_run_id w uuid t)"
  unfolding create_run_id_def
  by (simp add: list_all_take string_to_file_name_safe)

theorem create_run_id_bounded_safe_witness:
  "create_run_id demo_world ''123e4567-e89b'' (Some 1541421296) = ''181105123456__alice__proj__123e4567-e89b''
   \<and> length (create_run_id demo_world ''123e4567-e89b'' (Some 1541421296)) \<le> 210
   \<and> list_all fs_safe (create_run_id demo_world ''123e4567-e89b'' (Some 1541421296))"
  using create_run_id_bounded_safe [of demo_world "''123e4567-e89b''" "Some 1541421296"]
  by (simp add: create_run_id_def demo_world_def join_def basename_def string_to_file_name_def
        fs_safe_def)

section \<open>Argument normalization: what is replaced\<close>

lemma inner_replace_no_seq_file_arg: "\<not> has_seq_file_arg (inner_replace_file_args v)"
  by (induction v rule: inner_replace_file_args.induct) (auto simp: list_ex_iff)

lemma inner_replace_no_file_arg:
  "no_file_arg_in_dict v \<Longrightarrow> \<not> has_file_arg (inner_replace_file_args v)"
  by (induction v rule: inner_replace_file_args.induct) (auto simp: list_ex_iff list_all_iff)

lemma inner_replace_plain: "seq_plain v \<Longrightarrow> inner_replace_file_args v = v"
  by (induction v rule: inner_replace_file_args.induct) (auto simp: list_all_iff map_idI)

lemma cmd_call_cmd_before_args:
  "fst (snd (cmd_call_cmd_before module func_name ns rd w)) = replace_file_args ns"
  by (simp add: cmd_call_cmd_before_def Let_def split: prod.split)

text \<open>
  Claim C5. The namespace the command is run on is the normalized one. Normalization
  keeps every argument name and its place, replaces a \<^verbatim>\<open>FileArg\<close> by its raw value,
  maps itself over the elements of a list and of a tuple (the tuple comes back as a list)
  and returns every other value as it is. Afterwards no \<^verbatim>\<open>FileArg\<close> is left at the top
  level or inside lists and tuples, at any depth; so for argument values in which no
  mapping holds a \<^verbatim>\<open>FileArg\<close> (file arguments come from the conversion of single
  command-line strings, at the top level and in lists), none is left anywhere in the
  values passed to the command.
\<close>

theorem replace_file_args_removes_file_args:
  "fst (snd (cmd_call_cmd_before module func_name ns rd w)) = replace_file_args ns \<and>
   replace_file_args ns = map (\<lambda>kv. (fst kv, inner_replace_file_args (snd kv))) ns \<and>
   inner_replace_file_args (PFileArg fa) = PStr (val fa) \<and>
   inner_replace_file_args (PList xs) = PList (map inner_replace_file_args xs) \<and>
   inner_replace_file_args (PTuple xs) = PList (map inner_replace_file_args xs) \<and>
   (seq_plain v \<longrightarrow> inner_replace_file_args v = v) \<and>
   list_all (\<lambda>kv. \<not> has_seq_file_arg (snd kv)) (replace_file_args ns) \<and>
   (list_all (\<lambda>kv. no_file_arg_in_dict (snd kv)) ns \<longrightarrow>
      list_all (\<lambda>kv. \<not> has_file_arg (snd kv)) (replace_file_args ns))"
proof -
  have r: "replace_file_args ns = map (\<lambda>kv. (fst kv, inner_replace_file_args (snd kv))) ns"
    by (simp add: replace_file_args_def case_prod_unfold)
  have s: "list_all (\<lambda>kv. \<not> has_seq_file_arg (snd kv)) (replace_file_args ns)"
    by (simp add: r list_all_iff inner_replace_no_seq_file_arg)
  have a: "list_all (\<lambda>kv. no_file_arg_in_dict (snd kv)) ns \<longrightarrow>
      list_all (\<lambda>kv. \<not> has_file_arg (snd kv)) (replace_file_args ns)"
    by (simp add: r list_all_iff inner_replace_no_file_arg)
  show ?thesis
    using r s a by (simp add: cmd_call_cmd_before_args inner_replace_plain)
qed

theorem replace_file_args_removes_file_args_witness:
  "list_all (\<lambda>kv. no_file_arg_in_dict (snd kv)) nested_args \<and>
   list_ex (\<lambda>kv. has_file_arg (snd kv)) nested_args \<and>
   list_all (\<lambda>kv. \<not> has_file_arg (snd kv)) (replace_file_args nested_args) \<and>
   fst (snd (cmd_call_cmd_before ''read_utils'' ''align'' nested_args demo_readings demo_world)) =
     [(''in_bams'', PList [PStr ''a.bam'', PList [PStr ''b.bam'', PStr ''x'']]),
      (''threads'', PInt 4),
      (''names'', PList [PStr ''s1'', PStr ''s2'']),
      (''opts'', PDict [(''k'', PStr ''v'')])]"
proof -
  have e: "replace_file_args nested_args =
     [(''in_bams'', PList [PStr ''a.bam'', PList [PStr ''b.bam'', PStr ''x'']]),
      (''threads'', PInt 4),
      (''names'', PList [PStr ''s1'', PStr ''s2'']),
      (''opts'', PDict [(''k'', PStr ''v'')])]"
    by (simp add: nested_args_def replace_file_args_def)
  have h: "list_all (\<lambda>kv. no_file_arg_in_dict (snd kv)) nested_args"
          "list_ex (\<lambda>kv. has_file_arg (snd kv)) nested_args"
    by (simp_all add: nested_args_def)
  note t = replace_file_args_removes_file_args [of "''read_utils''" "''align''" nested_args
            demo_readings demo_world]
  have p: "fst (snd (cmd_call_cmd_before ''read_utils'' ''align'' nested_args demo_readings
                       demo_world)) = replace_file_args nested_args"
    using t by blast
  have n: "list_all (\<lambda>kv. \<not> has_file_arg (snd kv)) (replace_file_args nested_args)"
    using t h(1) by blast
  show ?thesis
    using p n h by (simp add: e)
qed

section \<open>The recording block and the store\<close>

lemma errors_as_warnings_eq:
  "errors_as_warnings m r w =
     w\<lparr>logged := logged w @ (case r of None \<Rightarrow> [] | Some e \<Rightarrow> [(WARNING, m)])\<rparr>"
  by (cases r) (simp_all add: errors_as_warnings_def)

lemma errors_as_warnings_logs: "\<exists>lg. errors_as_warnings m r w = w\<lparr>logged := lg\<rparr>"
  by (rule exI, rule errors_as_warnings_eq)

lemma tag_code_version_logs: "\<exists>lg. snd (tag_code_version w tag p) = w\<lparr>logged := lg\<rparr>"
  by (simp add: tag_code_version_def errors_as_warnings_logs split: prod.split)

lemma gather_version_info_snd:
  "snd (gather_version_info w sid) =
     snd (tag_code_version w (''cmd_'' @ sid)
            (if isdir w (path_join (db_metadata_dir w) ''code_repo'')
             then Some (path_join (db_metadata_dir w) ''code_repo'') else None))"
  by (simp add: gather_version_info_def Let_def split: prod.split sum.split)

lemma gather_version_info_logs: "\<exists>lg. snd (gather_version_info w sid) = w\<lparr>logged := lg\<rparr>"
  by (simp only: gather_version_info_snd tag_code_version_logs)

lemma gather_version_info_isl: "isl (fst (gather_version_info w sid)) = isl (get_version w)"
proof -
  obtain h w' where t: "tag_code_version w (''cmd_'' @ sid)
                 (if isdir w (path_join (db_metadata_dir w) ''code_repo'')
                  then Some (path_join (db_metadata_dir w) ''code_repo'') else None) = (h, w')"
    by (rule prod.exhaust)
  obtain lg where "w' = w\<lparr>logged := lg\<rparr>"
    using tag_code_version_logs[of w "''cmd_'' @ sid"] t by (metis snd_conv)
  hence "get_version w' = get_version w" by simp
  thus ?thesis using t by (simp add: gather_version_info_def Let_def split: sum.split)
qed

lemma get_conda_env_logged: "get_conda_env (w\<lparr>logged := lg\<rparr>) = get_conda_env w"
  by (simp add: get_conda_env_def in_environ_def)

lemma gather_run_env_isl: "isl (gather_run_env w) = isl (get_conda_env w)"
  by (simp add: gather_run_env_def split: sum.split)

lemma gather_user_metadata_logged:
  "gather_user_metadata (w\<lparr>logged := lg\<rparr>) a c = gather_user_metadata w a c"
  by (simp add: gather_user_metadata_def metadata_from_environ_def)

lemma recording_block_skipped:
  "\<not> (tracking_enabled w \<and> l_enclosing_steps l = []) \<Longrightarrow> recording_block l rd cr s w = (None, w)"
  unfolding recording_block_def by (rule if_not_P)

lemma record_step_to_db_cases:
  "record_step_to_db w sd cr =
     (case db_error w of
        Some e \<Rightarrow> (Some e, w)
      | None \<Rightarrow> (None, w\<lparr>db := db w @ [\<lparr>doc_data = sd,
               doc_args = map (\<lambda>kv. (fst kv, serialize (write_obj w sd cr) (snd kv))) (args (step sd))\<rparr>]\<rparr>))"
  by (simp add: record_step_to_db_def store_step_record_def)


text \<open>The block, with the tracking decision taken and the version info gathered.\<close>

lemma recording_block_unfold:
  assumes "tracking_enabled w" "l_enclosing_steps l = []"
    and "gather_version_info (log_info ''command finished'' w) (l_step_id l) = (r, w2)"
  shows "recording_block l rd cr s w =
     (case gather_user_metadata w (l_args_dict l) cr of
        Inl e \<Rightarrow> (Some e, log_info ''command finished'' w)
      | Inr (from_cmd_line, from_cmd_return, args_dict1) \<Rightarrow>
          (case r of
             Inl e \<Rightarrow> (Some e, w2)
           | Inr vi \<Rightarrow>
               (case gather_run_env w2 of
                  Inl e \<Rightarrow> (Some e, w2)
                | Inr re \<Rightarrow>
                    (case db_error w of
                       Some e \<Rightarrow> (Some e, w2)
                     | None \<Rightarrow>
                        (None, log_info ''metadata recording done''
                           (snd (record_step_to_db w2
                                     \<lparr>viral_ngs_metadata = True,
                                      format = VIRAL_NGS_METADATA_FORMAT,
                                      step =
                                        \<lparr>step_id = l_step_id l, run_id = l_run_id l,
                                         cmd_module = l_cmd_module l, cmd_name = l_cmd_name l,
                                         version_info = vi,
                                         run_env = re,
                                         run_info = gather_run_info w2 (l_beg_time l) (t_end rd) s,
                                         args = AList.delete ''func_main'' args_dict1,
                                         metadata_from_cmd_line = from_cmd_line,
                                         metadata_from_cmd_return = from_cmd_return,
                                         enclosing_steps = l_enclosing_steps l\<rparr>\<rparr>
                                     cr)))))))"
proof -
  obtain lg where w2: "w2 = (log_info ''command finished'' w)\<lparr>logged := lg\<rparr>"
    using gather_version_info_logs[of "log_info ''command finished'' w" "l_step_id l"] assms(3)
    by auto
  have e2: "db_error w2 = db_error w"
    by (simp add: w2 log_info_def)
  have u1: "gather_user_metadata (log_info ''command finished'' w) (l_args_dict l) cr
              = gather_user_metadata w (l_args_dict l) cr"
    by (simp add: log_info_def gather_user_metadata_logged)
  have c: "tracking_enabled w \<and> l_enclosing_steps l = []" using assms(1,2) by simp
  show ?thesis
    unfolding recording_block_def Let_def u1 assms(3) if_P[OF c]
    by (cases "gather_user_metadata w (l_args_dict l) cr"; cases r; cases "gather_run_env w2";
        cases "db_error w")
       (simp_all add: record_step_to_db_cases e2 split: prod.split)
qed


lemma gather_user_metadata_isl:
  "isl (gather_user_metadata w a cr) = isl (gather_user_metadata w a PNone)"
  by (simp add: gather_user_metadata_def Let_def split: sum.split)

lemma recording_block_recorded:
  assumes "tracking_enabled w" "l_enclosing_steps l = []" "recording_succeeds l w"
  shows "\<exists>doc w'. recording_block l rd cr s w = (None, w') \<and> db w' = db w @ [doc] \<and>
           viral_ngs_metadata (doc_data doc) \<and> format (doc_data doc) = VIRAL_NGS_METADATA_FORMAT \<and>
           run_id (step (doc_data doc)) = l_run_id l \<and>
           enclosing_steps (step (doc_data doc)) = []"
proof -
  let ?w1 = "log_info ''command finished'' w"
  obtain r w2 where g: "gather_version_info ?w1 (l_step_id l) = (r, w2)"
    by (rule prod.exhaust)
  obtain lg where w2: "w2 = ?w1\<lparr>logged := lg\<rparr>"
    using gather_version_info_logs[of ?w1 "l_step_id l"] g by auto
  have "isl r = isl (get_version ?w1)"
    using gather_version_info_isl[of ?w1 "l_step_id l"] g by simp
  hence "\<not> isl r" using assms(3) by (simp add: recording_succeeds_def log_info_def)
  then obtain vi where r: "r = Inr vi" by (cases r) simp_all
  have "get_conda_env w2 = get_conda_env w"
    by (simp add: w2 log_info_def get_conda_env_logged)
  hence "\<not> isl (gather_run_env w2)"
    using assms(3) by (simp add: gather_run_env_isl recording_succeeds_def)
  then obtain re where re: "gather_run_env w2 = Inr re" by (cases "gather_run_env w2") simp_all
  have "\<not> isl (gather_user_metadata w (l_args_dict l) cr)"
    using assms(3) gather_user_metadata_isl[of w "l_args_dict l" cr]
    by (simp add: recording_succeeds_def)
  then obtain a b c where u: "gather_user_metadata w (l_args_dict l) cr = Inr (a, b, c)"
    by (cases "gather_user_metadata w (l_args_dict l) cr") auto
  have e: "db_error w = None" "db_error w2 = None"
    using assms(3) by (simp_all add: recording_succeeds_def w2 log_info_def)
  have d: "db w2 = db w" by (simp add: w2 log_info_def)
  show ?thesis
    unfolding recording_block_unfold[OF assms(1,2) g]
    by (simp add: u r re e d record_step_to_db_cases log_info_def assms(2))
qed

lemma recording_block_not_recorded:
  assumes "\<not> (tracking_enabled w \<and> l_enclosing_steps l = [] \<and> recording_succeeds l w)"
  shows "db (snd (recording_block l rd cr s w)) = db w"
proof (cases "tracking_enabled w \<and> l_enclosing_steps l = []")
  case False
  then show ?thesis using recording_block_skipped[of w l rd cr s] by simp
next
  case True
  hence t: "tracking_enabled w" "l_enclosing_steps l = []" by simp_all
  let ?w1 = "log_info ''command finished'' w"
  obtain r w2 where g: "gather_version_info ?w1 (l_step_id l) = (r, w2)"
    by (rule prod.exhaust)
  obtain lg where w2: "w2 = ?w1\<lparr>logged := lg\<rparr>"
    using gather_version_info_logs[of ?w1 "l_step_id l"] g by auto
  have ri: "isl r = isl (get_version w)"
    using gather_version_info_isl[of ?w1 "l_step_id l"] g by (simp add: log_info_def)
  have ci: "isl (gather_run_env w2) = isl (get_conda_env w)"
    by (simp add: gather_run_env_isl w2 log_info_def get_conda_env_logged)
  have ui: "isl (gather_user_metadata w (l_args_dict l) cr)
              = isl (gather_user_metadata w (l_args_dict l) PNone)"
    by (rule gather_user_metadata_isl)
  have d: "db w2 = db w" "db ?w1 = db w" by (simp_all add: w2 log_info_def)
  have "\<not> recording_succeeds l w" using assms True by simp
  hence "isl (gather_user_metadata w (l_args_dict l) cr) \<or> isl r \<or> isl (gather_run_env w2)
           \<or> db_error w \<noteq> None"
    by (simp add: recording_succeeds_def ri ci ui)
  thus ?thesis
    unfolding recording_block_unfold[OF t g]
    by (cases "gather_user_metadata w (l_args_dict l) cr"; cases r; cases "gather_run_env w2";
        cases "db_error w")
       (simp_all add: d split: prod.split)
qed


lemma tmp_set_env_exit_db: "db (tmp_set_env_exit old name w) = db w"
  by (simp add: tmp_set_env_exit_def)


lemma errors_as_warnings_db: "db (errors_as_warnings m r w) = db w"
  by (simp add: errors_as_warnings_eq)

lemma unpack_outcome_captured:
  "outcome_captured oc \<Longrightarrow>
     \<exists>cr ce s. unpack_outcome w oc = Inr (cr, ce, s) \<and>
       ce = (case oc of Result rs \<Rightarrow> None | Excinfo e \<Rightarrow> Some e) \<and>
       (s = None) = (ce = None)"
  by (auto simp: outcome_captured_def unpack_outcome_def split: outcome.splits exn.splits)

lemma unpack_outcome_not_captured:
  "\<not> outcome_captured oc \<Longrightarrow> \<exists>e. oc = Excinfo e \<and> unpack_outcome w oc = Inl e"
  by (auto simp: outcome_captured_def unpack_outcome_def split: outcome.splits exn.splits)

lemma cmd_call_cmd_after_db:
  "db (snd (cmd_call_cmd_after l rd oc w)) =
     (case unpack_outcome w oc of
        Inl e \<Rightarrow> db w
      | Inr (cr, ce, s) \<Rightarrow> db (snd (recording_block l rd cr s w)))"
  by (simp add: cmd_call_cmd_after_def tmp_set_env_exit_db errors_as_warnings_db
           split: sum.split prod.split)

lemma cmd_call_cmd_after_fst:
  "fst (cmd_call_cmd_after l rd oc w) = (case oc of Result rs \<Rightarrow> None | Excinfo e \<Rightarrow> Some e)"
  by (simp add: cmd_call_cmd_after_def unpack_outcome_def unpack_outcome_exit_def
           split: sum.split prod.split outcome.split exn.split)

lemma cmd_call_cmd_fst:
  "fst (cmd_call_cmd cmd_main module func_name ns rd w) =
     (case fst (cmd_main (replace_file_args ns)
                  (snd (snd (cmd_call_cmd_before module func_name ns rd w)))) of
        Result rs \<Rightarrow> Inr rs
      | Excinfo e \<Rightarrow> Inl e)"
proof -
  obtain l ns' w1 where b: "cmd_call_cmd_before module func_name ns rd w = (l, ns', w1)"
    by (rule prod_cases3)
  have n: "ns' = replace_file_args ns"
    using b by (simp add: cmd_call_cmd_before_def Let_def split: prod.splits)
  obtain oc w2 where c: "cmd_main ns' w1 = (oc, w2)" by (rule prod.exhaust)
  obtain r w3 where a: "cmd_call_cmd_after l rd oc w2 = (r, w3)" by (rule prod.exhaust)
  have "r = (case oc of Result rs \<Rightarrow> None | Excinfo e \<Rightarrow> Some e)"
    using cmd_call_cmd_after_fst[of l rd oc w2] a by simp
  thus ?thesis
    using c n by (simp add: cmd_call_cmd_def b a split: outcome.split)
qed


text \<open>The enclosing steps are those the environment names when the call starts.\<close>

lemma cmd_call_cmd_before_enclosing:
  "l_enclosing_steps (fst (cmd_call_cmd_before module func_name ns rd w)) =
     (case map_of (environ w) STEPS_RUNNING_VAR of
        None \<Rightarrow> []
      | Some s \<Rightarrow> if s = [] then [] else split_on (CHR '':'') [] s)"
  by (simp add: cmd_call_cmd_before_def tmp_set_env_enter_def save_step_id_def
        errors_as_warnings_def Let_def split: prod.split option.split)

text \<open>
  Claim C1, as stated, fails: with tracking enabled, no enclosing step and an outcome
  that is captured, a store that raises on the write leaves nothing persisted (the
  exception is caught and logged).
\<close>

theorem persisted_iff_counterexample:
  "tracking_enabled failing_store_world \<and> l_enclosing_steps demo_locals = [] \<and>
   outcome_captured (Result [PNone]) \<and>
   db (snd (cmd_call_cmd_after demo_locals demo_readings (Result [PNone]) failing_store_world))
     = db failing_store_world"
  using recording_block_not_recorded [of failing_store_world demo_locals demo_readings PNone None]
  by (simp add: cmd_call_cmd_after_db unpack_outcome_def recording_succeeds_def
        failing_store_world_def demo_world_def demo_locals_def outcome_captured_def)

text \<open>
  Claim C1, amended. After the command's outcome has come back to the wrapper, a step
  record is appended to the store if and only if the outcome is one the wrapper captures
  (a result or an \<^verbatim>\<open>Exception\<close>), metadata tracking is enabled, the sequence of enclosing
  steps read at entry is empty, and nothing raises while the record is gathered and
  stored. In every other case the store is left as it was: so a step nested under an
  ancestor step, and a step run with tracking disabled, is never persisted. In every case
  the command is run on the normalized arguments and the caller gets its outcome.
\<close>

theorem step_record_persisted_iff:
  "((\<exists>doc. db (snd (cmd_call_cmd_after l rd oc w)) = db w @ [doc]) =
      (outcome_captured oc \<and> tracking_enabled w \<and> l_enclosing_steps l = [] \<and>
       recording_succeeds l w)) \<and>
   (\<not> (outcome_captured oc \<and> tracking_enabled w \<and> l_enclosing_steps l = [] \<and>
        recording_succeeds l w) \<longrightarrow>
      db (snd (cmd_call_cmd_after l rd oc w)) = db w) \<and>
   fst (cmd_call_cmd cmd_main module func_name ns rd0 w0) =
     (case fst (cmd_main (replace_file_args ns)
                  (snd (snd (cmd_call_cmd_before module func_name ns rd0 w0)))) of
        Result rs \<Rightarrow> Inr rs
      | Excinfo e \<Rightarrow> Inl e)"
proof (cases "outcome_captured oc \<and> tracking_enabled w \<and> l_enclosing_steps l = [] \<and>
       recording_succeeds l w")
  case True
  then obtain cr ce s where u: "unpack_outcome w oc = Inr (cr, ce, s)"
    using unpack_outcome_captured[of oc w] by blast
  obtain doc w' where "recording_block l rd cr s w = (None, w')" "db w' = db w @ [doc]"
    using recording_block_recorded[of w l rd cr s] True by blast
  hence "db (snd (cmd_call_cmd_after l rd oc w)) = db w @ [doc]"
    by (simp add: cmd_call_cmd_after_db u)
  thus ?thesis using True cmd_call_cmd_fst [of cmd_main module func_name ns rd0 w0] by blast
next
  case False
  have "db (snd (cmd_call_cmd_after l rd oc w)) = db w"
  proof (cases "outcome_captured oc")
    case True
    then obtain cr ce s where u: "unpack_outcome w oc = Inr (cr, ce, s)"
      using unpack_outcome_captured[of oc w] by blast
    have "db (snd (recording_block l rd cr s w)) = db w"
      using False True by (intro recording_block_not_recorded) simp
    thus ?thesis by (simp add: cmd_call_cmd_after_db u)
  next
    case False
    then obtain e where "unpack_outcome w oc = Inl e"
      using unpack_outcome_not_captured[of oc w] by blast
    thus ?thesis by (simp add: cmd_call_cmd_after_db)
  qed
  thus ?thesis using False cmd_call_cmd_fst [of cmd_main module func_name ns rd0 w0] by simp
qed

theorem step_record_persisted_iff_witness:
  "outcome_captured (Result [PNone]) \<and> tracking_enabled demo_world \<and>
   l_enclosing_steps demo_locals = [] \<and> recording_succeeds demo_locals demo_world \<and>
   (\<exists>doc. db (snd (cmd_call_cmd_after demo_locals demo_readings (Result [PNone]) demo_world))
            = db demo_world @ [doc]) \<and>
   db (snd (cmd_call_cmd_after nested_locals demo_readings (Result [PNone]) demo_world))
     = db demo_world \<and>
   db (snd (cmd_call_cmd_after demo_locals demo_readings (Result [PNone])
              (demo_world\<lparr>tracking_enabled := False\<rparr>)))
     = db demo_world \<and>
   fst (cmd_call_cmd returning_cmd ''read_utils'' ''align'' demo_args demo_readings
          (demo_world\<lparr>tracking_enabled := False\<rparr>)) = Inr [PStr ''done'']"
proof -
  have c: "outcome_captured (Result [PNone])" "tracking_enabled demo_world"
      "l_enclosing_steps demo_locals = []" "recording_succeeds demo_locals demo_world"
      "l_enclosing_steps nested_locals \<noteq> []"
      "\<not> tracking_enabled (demo_world\<lparr>tracking_enabled := False\<rparr>)"
      "db (demo_world\<lparr>tracking_enabled := False\<rparr>) = db demo_world"
    by (simp_all add: outcome_captured_def recording_succeeds_def demo_world_def demo_locals_def
          nested_locals_def demo_args_def gather_user_metadata_def py_dict_def get_conda_env_def
          in_environ_def)
  show ?thesis
    using step_record_persisted_iff [of demo_locals demo_readings "Result [PNone]" demo_world]
          step_record_persisted_iff [of nested_locals demo_readings "Result [PNone]" demo_world]
          step_record_persisted_iff [of demo_locals demo_readings "Result [PNone]"
            "demo_world\<lparr>tracking_enabled := False\<rparr>" returning_cmd "''read_utils''" "''align''"
            demo_args demo_readings "demo_world\<lparr>tracking_enabled := False\<rparr>"]
    by (simp add: c returning_cmd_def)
qed

section \<open>The outcome of the command is the outcome of the call\<close>



lemma demo_recording_succeeds:
  "tracking_enabled demo_world \<and> l_enclosing_steps demo_locals = [] \<and>
   recording_succeeds demo_locals demo_world \<and> db demo_world = []"
  by (simp add: recording_succeeds_def demo_world_def demo_locals_def
        demo_args_def gather_user_metadata_def py_dict_def get_conda_env_def in_environ_def)



text \<open>
  Claim C9. If the outcome is a \<^verbatim>\<open>KeyboardInterrupt\<close> or a \<^verbatim>\<open>SystemExit\<close>, the wrapper
  raises it at once: the recording block is not run, so nothing is stored and nothing
  is logged, for every state of the tracking switch and of the enclosing steps; only the
  environment channel of the steps in flight is restored.
\<close>

theorem interrupt_not_recorded:
  "cmd_call_cmd_after l rd (Excinfo KeyboardInterrupt) w =
     (Some KeyboardInterrupt, tmp_set_env_exit (l_steps_running_at_entry l) STEPS_RUNNING_VAR w) \<and>
   cmd_call_cmd_after l rd (Excinfo SystemExit) w =
     (Some SystemExit, tmp_set_env_exit (l_steps_running_at_entry l) STEPS_RUNNING_VAR w) \<and>
   db (snd (cmd_call_cmd_after l rd (Excinfo KeyboardInterrupt) w)) = db w \<and>
   db (snd (cmd_call_cmd_after l rd (Excinfo SystemExit) w)) = db w \<and>
   logged (snd (cmd_call_cmd_after l rd (Excinfo KeyboardInterrupt) w)) = logged w \<and>
   logged (snd (cmd_call_cmd_after l rd (Excinfo SystemExit) w)) = logged w"
  by (simp add: cmd_call_cmd_after_def unpack_outcome_def tmp_set_env_exit_def)

theorem interrupt_not_recorded_witness:
  "tracking_enabled demo_world \<and> l_enclosing_steps demo_locals = [] \<and>
   recording_succeeds demo_locals demo_world \<and>
   fst (cmd_call_cmd_after demo_locals demo_readings (Excinfo KeyboardInterrupt) demo_world)
     = Some KeyboardInterrupt \<and>
   db (snd (cmd_call_cmd_after demo_locals demo_readings (Excinfo KeyboardInterrupt) demo_world)) = [] \<and>
   db (snd (cmd_call_cmd_after demo_locals demo_readings (Excinfo SystemExit) demo_world)) = []"
  using interrupt_not_recorded [of demo_locals demo_readings demo_world] demo_recording_succeeds
  by (simp add: tmp_set_env_exit_db)

section \<open>Marker, format version and run id\<close>

text \<open>
  Claim C8. Whatever the command, its arguments and its outcome, the wrapper stores
  nothing or stores one record, and that record has the marker field set to true and the
  format version \<open>1.0.0\<close>.
\<close>

theorem record_marker_and_format:
  "db (snd (cmd_call_cmd_after l rd oc w)) = db w \<or>
   (\<exists>doc. db (snd (cmd_call_cmd_after l rd oc w)) = db w @ [doc] \<and>
          viral_ngs_metadata (doc_data doc) = True \<and> format (doc_data doc) = ''1.0.0'')"
proof (cases "outcome_captured oc \<and> tracking_enabled w \<and> l_enclosing_steps l = [] \<and>
       recording_succeeds l w")
  case True
  then obtain cr ce s where u: "unpack_outcome w oc = Inr (cr, ce, s)"
    using unpack_outcome_captured[of oc w] by blast
  obtain doc w' where "recording_block l rd cr s w = (None, w')" "db w' = db w @ [doc]"
      "viral_ngs_metadata (doc_data doc)" "format (doc_data doc) = VIRAL_NGS_METADATA_FORMAT"
    using recording_block_recorded[of w l rd cr s] True by blast
  hence "db (snd (cmd_call_cmd_after l rd oc w)) = db w @ [doc] \<and>
          viral_ngs_metadata (doc_data doc) = True \<and> format (doc_data doc) = ''1.0.0''"
    by (simp add: cmd_call_cmd_after_db u VIRAL_NGS_METADATA_FORMAT_def)
  thus ?thesis by blast
next
  case False
  have "db (snd (cmd_call_cmd_after l rd oc w)) = db w"
  proof (cases "outcome_captured oc")
    case True
    then obtain cr ce s where u: "unpack_outcome w oc = Inr (cr, ce, s)"
      using unpack_outcome_captured[of oc w] by blast
    have "db (snd (recording_block l rd cr s w)) = db w"
      using False True by (intro recording_block_not_recorded) simp
    thus ?thesis by (simp add: cmd_call_cmd_after_db u)
  next
    case False
    then obtain e where "unpack_outcome w oc = Inl e"
      using unpack_outcome_not_captured[of oc w] by blast
    thus ?thesis by (simp add: cmd_call_cmd_after_db)
  qed
  thus ?thesis by simp
qed


theorem record_marker_and_format_witness:
  "\<exists>doc. db (snd (cmd_call_cmd_after demo_locals demo_readings (Result [PNone]) demo_world))
           = [doc] \<and>
         viral_ngs_metadata (doc_data doc) = True \<and> format (doc_data doc) = ''1.0.0''"
proof -
  obtain doc w' where
    "recording_block demo_locals demo_readings PNone None demo_world = (None, w')"
    "db w' = db demo_world @ [doc]"
    using recording_block_recorded [of demo_world demo_locals demo_readings PNone None]
      demo_recording_succeeds by blast
  hence "db (snd (cmd_call_cmd_after demo_locals demo_readings (Result [PNone]) demo_world))
           = [doc]"
    using demo_recording_succeeds by (simp add: cmd_call_cmd_after_db unpack_outcome_def)
  thus ?thesis
    using record_marker_and_format [of demo_locals demo_readings "Result [PNone]" demo_world]
      demo_recording_succeeds
    by auto
qed










section \<open>The code identifier on errors\<close>

lemma read_head_ref_error: "fst (read_head_ref w) \<noteq> None \<Longrightarrow> snd (read_head_ref w) = []"
  by (auto simp: read_head_ref_def Let_def split: option.splits if_splits list.splits)

lemma tag_code_version_empty_on_head_error:
  "fst (read_head_ref w) \<noteq> None \<Longrightarrow> fst (tag_code_version w tag push_to) = []"
  using read_head_ref_error [of w]
  by (cases "read_head_ref w")
     (auto simp: tag_code_version_def tag_code_version_block_def split: prod.splits option.splits)

lemma read_head_ref_dirty_repo: "read_head_ref dirty_repo_world = (None, ''0123abc'')"
  by (simp add: read_head_ref_def dirty_repo_world_def demo_world_def path_join_def
        startswith_def strip_def is_space_def Let_def)

text \<open>
  Claim C6, on the code. \<open>tag_code_version\<close> returns a value on every input (an exception
  of its block is caught and logged), but the value is not always the empty string when
  an error occurred: here the block has read the hash of the branch head, then
  \<open>save_dirty_repo\<close> raises \<^verbatim>\<open>NameError\<close> on the unbound name \<^verbatim>\<open>tagb\<close>, and the hash read
  before is returned.
\<close>

theorem tag_code_version_keeps_head_hash_on_error:
  "tag_code_version_block dirty_repo_world ''cmd_step'' (Some ''/md/code_repo'') =
     (Some (Exception ''NameError: name tagb is not defined''), ''0123abc'') \<and>
   fst (tag_code_version dirty_repo_world ''cmd_step'' (Some ''/md/code_repo'')) = ''0123abc'' \<and>
   logged (snd (tag_code_version dirty_repo_world ''cmd_step'' (Some ''/md/code_repo'')))
     = [(WARNING, ''getting repo version'')]"
proof -
  have s: "save_dirty_repo dirty_repo_world ''0123abc'' ''cmd_step'' (Some ''/md/code_repo'')
             = Inl (Exception ''NameError: name tagb is not defined'')"
    by (simp add: save_dirty_repo_def dirty_repo_world_def)
  have d: "in_environ ''VIRAL_NGS_METADATA_DETAILED_ENV'' dirty_repo_world"
    by (simp add: in_environ_def dirty_repo_world_def)
  have b: "tag_code_version_block dirty_repo_world ''cmd_step'' (Some ''/md/code_repo'') =
     (Some (Exception ''NameError: name tagb is not defined''), ''0123abc'')"
    by (simp add: tag_code_version_block_def read_head_ref_dirty_repo s d)
  have l: "logged dirty_repo_world = []" by (simp add: dirty_repo_world_def demo_world_def)
  show ?thesis
    by (simp add: b tag_code_version_def errors_as_warnings_eq l)
qed

section \<open>User metadata: command line over environment\<close>

lemma map_of_dict_update:
  "map_of (dict_update d kvs) k =
     (case map_of (rev kvs) k of Some v \<Rightarrow> Some v | None \<Rightarrow> map_of d k)"
proof (induction kvs arbitrary: d)
  case Nil
  then show ?case by (simp add: dict_update_def)
next
  case (Cons kv kvs)
  have "dict_update d (kv # kvs) = dict_update (AList.update (fst kv) (snd kv) d) kvs"
    by (simp add: dict_update_def)
  then show ?case
    using Cons.IH[of "AList.update (fst kv) (snd kv) d"]
    by (cases kv) (auto simp: update_conv' map_add_def split: option.splits)
qed


lemma map_of_rev_distinct: "distinct (map fst xs) \<Longrightarrow> map_of (rev xs) = map_of xs"
  by (subst map_of_inject_set) (simp_all add: rev_map [symmetric])

lemma distinct_dict_update: "distinct (map fst d) \<Longrightarrow> distinct (map fst (dict_update d kvs))"
  unfolding dict_update_def
  by (induction kvs arbitrary: d) (simp_all add: distinct_update)

lemma map_of_dict_update_dict:
  "map_of (dict_update d (dict_update [] kvs)) k =
     (case map_of (rev kvs) k of Some v \<Rightarrow> Some v | None \<Rightarrow> map_of d k)"
proof -
  have "distinct (map fst (dict_update [] kvs))" by (simp add: distinct_dict_update)
  hence "map_of (rev (dict_update [] kvs)) = map_of (dict_update [] kvs)"
    by (rule map_of_rev_distinct)
  thus ?thesis by (simp add: map_of_dict_update split: option.split)
qed

lemma startswith_append: "startswith (p @ k) p"
  by (simp add: startswith_def)

lemma startswith_decompose: "startswith s p \<Longrightarrow> s = p @ drop (length p) s"
  by (metis append_take_drop_id startswith_def)

lemma map_of_prefixed:
  assumes "distinct (map fst env)"
  shows "map_of (rev (map (\<lambda>kv. (drop (length p) (fst kv), PStr (snd kv)))
                   (filter (\<lambda>kv. startswith (fst kv) p) env))) k
           = map_option PStr (map_of env (p @ k))"
  using assms
proof (induction env)
  case Nil
  then show ?case by simp
next
  case (Cons x xs)
  have ih: "map_of (rev (map (\<lambda>kv. (drop (length p) (fst kv), PStr (snd kv)))
                   (filter (\<lambda>kv. startswith (fst kv) p) xs))) k
           = map_option PStr (map_of xs (p @ k))"
    using Cons by simp
  show ?case
  proof (cases "fst x = p @ k")
    case True
    hence "p @ k \<notin> fst ` set xs" using Cons.prems by auto
    hence "map_of xs (p @ k) = None" by (simp add: map_of_eq_None_iff)
    thus ?thesis using True ih by (cases x) (auto simp: startswith_append map_add_def)
  next
    case False
    have "startswith (fst x) p \<Longrightarrow> drop (length p) (fst x) \<noteq> k"
      using False startswith_decompose by metis
    thus ?thesis using False ih
      by (cases x) (auto simp: map_add_def split: option.splits)
  qed
qed

lemma metadata_from_environ_lookup:
  "distinct (map fst (environ w)) \<Longrightarrow>
     map_of (metadata_from_environ w) k =
       map_option PStr (map_of (environ w) (METADATA_VALUE_PREFIX @ k))"
  by (simp add: metadata_from_environ_def map_of_dict_update map_of_prefixed
           split: option.split)

lemma gather_user_metadata_given:
  assumes "map_of args_dict ''metadata'' = Some (PList pairs)" "dict_items pairs = Inr kvs"
  shows "gather_user_metadata w args_dict cmd_result =
           Inr (dict_update (metadata_from_environ w) (dict_update [] kvs),
                (case cmd_result of
                   PDict rs \<Rightarrow> (case map_of rs ''__metadata__'' of None \<Rightarrow> PDict [] | Some m \<Rightarrow> m)
                 | other \<Rightarrow> PDict []),
                AList.delete ''metadata'' args_dict)"
proof (cases pairs)
  case Nil
  then show ?thesis using assms
    by (simp add: gather_user_metadata_def py_dict_def dict_update_def)
next
  case (Cons a list)
  then show ?thesis using assms
    by (simp add: gather_user_metadata_def py_dict_def)
qed

text \<open>
  Claim C10. When a key has a value in an environment variable under the prefix
  \<^verbatim>\<open>VIRAL_NGS_METADATA_VALUE_\<close> and a value given with \<^verbatim>\<open>--metadata\<close>, the command-line
  mapping of the record has the value from the command line (the last one given for that
  key); a key found in the environment only keeps the value of the environment. The
  metadata a command returns is a mapping of its own: the value under \<^verbatim>\<open>'__metadata__'\<close>
  when the command's result is a mapping that has this key, and empty otherwise.
\<close>

theorem command_line_metadata_overrides_environment:
  "(map_of (environ w) (METADATA_VALUE_PREFIX @ k) = Some ev \<and>
    map_of args_dict ''metadata'' = Some (PList pairs) \<and> dict_items pairs = Inr kvs \<and>
    map_of (rev kvs) k = Some cv \<longrightarrow>
      (\<exists>from_cmd_line from_cmd_return args_dict'.
         gather_user_metadata w args_dict cmd_result =
           Inr (from_cmd_line, from_cmd_return, args_dict') \<and>
         map_of from_cmd_line k = Some cv)) \<and>
   (distinct (map fst (environ w)) \<and>
    map_of (environ w) (METADATA_VALUE_PREFIX @ k) = Some ev \<and>
    map_of args_dict ''metadata'' = Some (PList pairs) \<and> dict_items pairs = Inr kvs \<and>
    map_of (rev kvs) k = None \<longrightarrow>
      (\<exists>from_cmd_line from_cmd_return args_dict'.
         gather_user_metadata w args_dict cmd_result =
           Inr (from_cmd_line, from_cmd_return, args_dict') \<and>
         map_of from_cmd_line k = Some (PStr ev))) \<and>
   (gather_user_metadata w args_dict cmd_result = Inr (m_line, m_return, rest) \<longrightarrow>
      m_return =
        (case cmd_result of
           PDict rs \<Rightarrow> (case map_of rs ''__metadata__'' of None \<Rightarrow> PDict [] | Some m \<Rightarrow> m)
         | other \<Rightarrow> PDict []))"
proof (intro conjI impI)
  assume a: "map_of (environ w) (METADATA_VALUE_PREFIX @ k) = Some ev \<and>
    map_of args_dict ''metadata'' = Some (PList pairs) \<and> dict_items pairs = Inr kvs \<and>
    map_of (rev kvs) k = Some cv"
  hence "map_of (dict_update (metadata_from_environ w) (dict_update [] kvs)) k = Some cv"
    by (simp add: map_of_dict_update_dict)
  thus "\<exists>from_cmd_line from_cmd_return args_dict'.
         gather_user_metadata w args_dict cmd_result =
           Inr (from_cmd_line, from_cmd_return, args_dict') \<and>
         map_of from_cmd_line k = Some cv"
    using a gather_user_metadata_given[of args_dict pairs kvs w cmd_result] by simp
next
  assume a: "distinct (map fst (environ w)) \<and>
    map_of (environ w) (METADATA_VALUE_PREFIX @ k) = Some ev \<and>
    map_of args_dict ''metadata'' = Some (PList pairs) \<and> dict_items pairs = Inr kvs \<and>
    map_of (rev kvs) k = None"
  hence "map_of (dict_update (metadata_from_environ w) (dict_update [] kvs)) k = Some (PStr ev)"
    by (simp add: map_of_dict_update_dict metadata_from_environ_lookup)
  thus "\<exists>from_cmd_line from_cmd_return args_dict'.
         gather_user_metadata w args_dict cmd_result =
           Inr (from_cmd_line, from_cmd_return, args_dict') \<and>
         map_of from_cmd_line k = Some (PStr ev)"
    using a gather_user_metadata_given[of args_dict pairs kvs w cmd_result] by simp
next
  assume "gather_user_metadata w args_dict cmd_result = Inr (m_line, m_return, rest)"
  thus "m_return =
        (case cmd_result of
           PDict rs \<Rightarrow> (case map_of rs ''__metadata__'' of None \<Rightarrow> PDict [] | Some m \<Rightarrow> m)
         | other \<Rightarrow> PDict [])"
    by (auto simp: gather_user_metadata_def Let_def split: sum.splits)
qed


theorem command_line_metadata_overrides_environment_witness:
  "map_of (environ demo_world) (METADATA_VALUE_PREFIX @ ''project'') = Some ''from_env'' \<and>
   map_of (environ demo_world) (METADATA_VALUE_PREFIX @ ''lab'') = Some ''sabeti'' \<and>
   map_of demo_args ''metadata'' = Some (PList [PList [PStr ''project'', PStr ''from_cli'']]) \<and>
   gather_user_metadata demo_world demo_args
       (PDict [(''__metadata__'', PDict [(''aligner'', PStr ''bwa'')])])
     = Inr ([(''project'', PStr ''from_cli''), (''lab'', PStr ''sabeti'')],
            PDict [(''aligner'', PStr ''bwa'')],
            AList.delete ''metadata'' demo_args) \<and>
   fst (snd (projr (gather_user_metadata demo_world demo_args (PStr ''done'')))) = PDict []"
  using command_line_metadata_overrides_environment [of demo_world "''project''" "''from_env''"
          demo_args "[PList [PStr ''project'', PStr ''from_cli'']]"
          "[(''project'', PStr ''from_cli'')]" "PStr ''from_cli''"
          "PDict [(''__metadata__'', PDict [(''aligner'', PStr ''bwa'')])]"]
  by (simp add: demo_world_def demo_args_def METADATA_VALUE_PREFIX_def gather_user_metadata_def
        metadata_from_environ_def dict_update_def py_dict_def startswith_def)

section \<open>File information at serialization\<close>

lemma unpack_outcome_text:
  "unpack_outcome w0 oc = Inr (cr, ce, s) \<Longrightarrow>
     py_not s = (s = None) \<and> (s = None) = (\<exists>rs. oc = Result rs) \<and> (s = None) = (ce = None)"
  by (auto simp: unpack_outcome_def py_not_def format_exc_def split: outcome.splits exn.splits)

text \<open>
  Claim C3. At serialization a \<^verbatim>\<open>FileArg\<close> is replaced by the file info that
  \<open>gather_file_info\<close> gathers with \<open>out_files_exist\<close> true exactly when no exception text was
  captured, that is, exactly when the command returned. Files of an IN argument are
  hashed and stat'ed in either case; files of an OUT argument are hashed and stat'ed when
  the command returned, and are otherwise marked as not existing, whatever is on disk.
  The stored document holds the argument map serialized this way.
\<close>

theorem file_info_on_serialization:
  "(unpack_outcome w0 oc = Inr (cr, ce, s) \<and> exception (run_info (step sd)) = s \<longrightarrow>
      (s = None) = (\<exists>rs. oc = Result rs) \<and>
      serialize (write_obj w sd cr) (PFileArg fa) = JFileInfo (gather_file_info w fa (s = None) cr) \<and>
      (mode fa = IN \<longrightarrow>
         gather_file_info w fa (s = None) cr =
           map (hash_and_stat w) (compute_fnames fa (val fa) @ result_fnames w cr fa)) \<and>
      (mode fa = OUT \<and> s = None \<longrightarrow>
         gather_file_info w fa (s = None) cr =
           map (hash_and_stat w) (compute_fnames fa (val fa) @ result_fnames w cr fa)) \<and>
      (mode fa = OUT \<and> s \<noteq> None \<longrightarrow>
         gather_file_info w fa (s = None) cr =
           map absent_file (compute_fnames fa (val fa) @ result_fnames w cr fa) \<and>
         list_all (\<lambda>fi. \<not> fi_exists fi) (gather_file_info w fa (s = None) cr))) \<and>
   (db_error w = None \<longrightarrow>
      db (snd (record_step_to_db w sd cr)) =
        db w @ [\<lparr>doc_data = sd,
                  doc_args = map (\<lambda>kv. (fst kv, serialize (write_obj w sd cr) (snd kv)))
                               (args (step sd))\<rparr>])"
proof (intro conjI impI)
  assume a: "unpack_outcome w0 oc = Inr (cr, ce, s) \<and> exception (run_info (step sd)) = s"
  have u: "unpack_outcome w0 oc = Inr (cr, ce, s)" using a by simp
  show "(s = None) = (\<exists>rs. oc = Result rs)"
    using unpack_outcome_text [OF u] by simp
  have "py_not s = (s = None)" using unpack_outcome_text [OF u] by simp
  thus "serialize (write_obj w sd cr) (PFileArg fa) =
          JFileInfo (gather_file_info w fa (s = None) cr)"
    using a by (simp add: write_obj_def)
next
  assume "mode fa = IN"
  thus "gather_file_info w fa (s = None) cr =
           map (hash_and_stat w) (compute_fnames fa (val fa) @ result_fnames w cr fa)"
    by (simp add: gather_file_info_def)
next
  assume "mode fa = OUT \<and> s = None"
  thus "gather_file_info w fa (s = None) cr =
           map (hash_and_stat w) (compute_fnames fa (val fa) @ result_fnames w cr fa)"
    by (simp add: gather_file_info_def)
next
  assume b: "mode fa = OUT \<and> s \<noteq> None"
  thus c: "gather_file_info w fa (s = None) cr =
           map absent_file (compute_fnames fa (val fa) @ result_fnames w cr fa)"
    by (auto simp: gather_file_info_def)
  show "list_all (\<lambda>fi. \<not> fi_exists fi) (gather_file_info w fa (s = None) cr)"
    unfolding c by (auto simp: list_all_iff absent_file_def)
next
  assume "db_error w = None"
  thus "db (snd (record_step_to_db w sd cr)) =
        db w @ [\<lparr>doc_data = sd,
                  doc_args = map (\<lambda>kv. (fst kv, serialize (write_obj w sd cr) (snd kv)))
                               (args (step sd))\<rparr>]"
    by (simp add: record_step_to_db_cases)
qed

theorem file_info_on_serialization_witness:
  "unpack_outcome both_files_world (Excinfo (Exception ''ValueError: bad read group''))
     = Inr (PNone, Some (Exception ''ValueError: bad read group''),
            Some (format_exc both_files_world (Exception ''ValueError: bad read group''))) \<and>
   files both_files_world ''b.bam'' = Some ''TTTT'' \<and>
   serialize (write_obj both_files_world
                (demo_step_data (Some (format_exc both_files_world
                                         (Exception ''ValueError: bad read group'')))) PNone)
     (PFileArg (FileArg ''b.bam'' OUT (\<lambda>x. [x])))
     = JFileInfo [\<lparr>fi_path = ''b.bam'', fi_digest = [], fi_size = 0, fi_mtime = 0,
                    fi_exists = False\<rparr>] \<and>
   serialize (write_obj both_files_world
                (demo_step_data (Some (format_exc both_files_world
                                         (Exception ''ValueError: bad read group'')))) PNone)
     (PFileArg (FileArg ''a.bam'' IN (\<lambda>x. [x])))
     = JFileInfo [\<lparr>fi_path = ''a.bam'', fi_digest = ''sha1:ACGT'', fi_size = 4, fi_mtime = 0,
                    fi_exists = True\<rparr>] \<and>
   serialize (write_obj both_files_world (demo_step_data None) (PStr ''done''))
     (PFileArg (FileArg ''b.bam'' OUT (\<lambda>x. [x])))
     = JFileInfo [\<lparr>fi_path = ''b.bam'', fi_digest = ''sha1:TTTT'', fi_size = 4, fi_mtime = 0,
                    fi_exists = True\<rparr>]"
proof -
  let ?e = "Exception ''ValueError: bad read group''"
  let ?t = "Some (format_exc both_files_world ?e)"
  have u: "unpack_outcome both_files_world (Excinfo ?e) = Inr (PNone, Some ?e, ?t)"
          "unpack_outcome both_files_world (Result [PStr ''done'']) = Inr (PStr ''done'', None, None)"
    by (simp_all add: unpack_outcome_def)
  have x: "exception (run_info (step (demo_step_data exc))) = exc" for exc
    by (simp add: demo_step_data_def gather_run_info_def)
  have f: "files both_files_world ''b.bam'' = Some ''TTTT''"
          "files both_files_world ''a.bam'' = Some ''ACGT''"
          "hasher both_files_world = (\<lambda>c. ''sha1:'' @ c)"
          "file_mtime both_files_world = (\<lambda>p. 0)"
          "result_fnames both_files_world = (\<lambda>r fa. [])"
    by (simp_all add: both_files_world_def demo_world_def)
  show ?thesis
    using file_info_on_serialization [of both_files_world "Excinfo ?e" PNone "Some ?e" ?t
            "demo_step_data ?t" both_files_world "FileArg ''b.bam'' OUT (\<lambda>x. [x])"]
          file_info_on_serialization [of both_files_world "Excinfo ?e" PNone "Some ?e" ?t
            "demo_step_data ?t" both_files_world "FileArg ''a.bam'' IN (\<lambda>x. [x])"]
          file_info_on_serialization [of both_files_world "Result [PStr ''done'']" "PStr ''done''"
            None None "demo_step_data None" both_files_world "FileArg ''b.bam'' OUT (\<lambda>x. [x])"]
    by (simp add: u x f absent_file_def hash_and_stat_def)
qed

end
